theory Spec2Isabelle
  imports Main "HOL-Library.Sublist"
begin

section \<open>Python values used by the client\<close>

text \<open>
  A value of type \<open>Optional[str]\<close> is a \<open>string option\<close>. Python tests such a
  value for truth: \<open>None\<close> and the empty string are false, every other string is true.
  \<open>a or b\<close> is \<open>a\<close> when \<open>a\<close> is true and \<open>b\<close> otherwise.
\<close>

definition truthy :: "string option \<Rightarrow> bool" where
  "truthy v = (case v of None \<Rightarrow> False | Some s \<Rightarrow> s \<noteq> [])"

definition py_or :: "string option \<Rightarrow> string option \<Rightarrow> string option" where
  "py_or a b = (if truthy a then a else b)"

text \<open>What an f-string writes for an \<open>Optional[str]\<close>.\<close>

definition fmt :: "string option \<Rightarrow> string" where
  "fmt v = (case v of None \<Rightarrow> ''None'' | Some s \<Rightarrow> s)"

text \<open>Decimal text of an integer, as an f-string writes it.\<close>

fun str_nat :: "nat \<Rightarrow> string" where
  "str_nat n = (if n < 10 then [''0123456789'' ! n]
                else str_nat (n div 10) @ [''0123456789'' ! (n mod 10)])"

declare str_nat.simps [simp del]

definition str_int :: "int \<Rightarrow> string" where
  "str_int i = (if i < 0 then ''-'' @ str_nat (nat (- i)) else str_nat (nat i))"

subsection \<open>\<open>base64.b64encode\<close> on a byte string\<close>

definition b64_alphabet :: string where
  "b64_alphabet = ''ABCDEFGHIJKLMNOPQRSTUVWXYZabcdefghijklmnopqrstuvwxyz0123456789+/''"

definition b64_char :: "nat \<Rightarrow> char" where
  "b64_char n = b64_alphabet ! (n mod 64)"

fun b64_bytes :: "nat list \<Rightarrow> string" where
  "b64_bytes [] = []"
| "b64_bytes [a] = [b64_char (a div 4), b64_char ((a mod 4) * 16), CHR ''='', CHR ''='']"
| "b64_bytes [a, b] =
     [b64_char (a div 4), b64_char ((a mod 4) * 16 + b div 16),
      b64_char ((b mod 16) * 4), CHR ''='']"
| "b64_bytes (a # b # c # rest) =
     [b64_char (a div 4), b64_char ((a mod 4) * 16 + b div 16),
      b64_char ((b mod 16) * 4 + c div 64), b64_char (c mod 64)] @ b64_bytes rest"

definition b64encode :: "string \<Rightarrow> string" where
  "b64encode s = b64_bytes (map of_char s)"

section \<open>Failures\<close>

text \<open>
  The exception classes of \<open>exceptions.py\<close>, each carrying its message, followed by
  the exceptions of the HTTP library and of the Python runtime that the client lets
  through. \<open>RetryError\<close> is what \<open>requests\<close> raises when the retry policy is exhausted
  by response statuses; \<open>ConnectionError\<close> is its network failure;
  \<open>JSONDecodeError\<close> is raised by \<open>response.json()\<close> and is, in \<open>requests\<close> 2.27 and
  later, a \<open>RequestException\<close> as the other two are.
\<close>

datatype error =
    BitbucketAPIError string
  | AuthenticationError string
  | PermissionError string
  | NotFoundError string
  | ConflictError string
  | RateLimitError string
  | ConfigurationError string
  | RetryError string
  | ConnectionError string
  | JSONDecodeError string
  | AttributeError string
  | TypeError string
  | KeyError string

text \<open>\<open>str(e)\<close>: the message of an exception.\<close>

fun str_exc :: "error \<Rightarrow> string" where
  "str_exc (BitbucketAPIError m) = m"
| "str_exc (AuthenticationError m) = m"
| "str_exc (PermissionError m) = m"
| "str_exc (NotFoundError m) = m"
| "str_exc (ConflictError m) = m"
| "str_exc (RateLimitError m) = m"
| "str_exc (ConfigurationError m) = m"
| "str_exc (RetryError m) = m"
| "str_exc (ConnectionError m) = m"
| "str_exc (JSONDecodeError m) = m"
| "str_exc (AttributeError m) = m"
| "str_exc (TypeError m) = m"
| "str_exc (KeyError m) = m"

text \<open>The exceptions that are instances of \<open>requests.RequestException\<close>.\<close>

fun is_RequestException :: "error \<Rightarrow> bool" where
  "is_RequestException (RetryError m) = True"
| "is_RequestException (ConnectionError m) = True"
| "is_RequestException (JSONDecodeError m) = True"
| "is_RequestException e = False"

section \<open>Configuration (\<open>auth.py\<close>)\<close>

text \<open>
  The \<open>auth\<close> group is a dictionary from slot name to an optional string; \<open>auth.get(k)\<close>
  is \<open>None\<close> both for a missing key and for a key stored with \<open>None\<close>, so the group is a
  map whose \<open>None\<close> stands for either. The process environment (\<open>os.getenv\<close>) is a
  map of the same kind.
\<close>

type_synonym auth = "string \<rightharpoonup> string"
type_synonym environ = "string \<rightharpoonup> string"

record defaults_group =
  reviewers :: "string list"
  delete_source_branch :: bool
  merge_strategy :: string
  default_branch :: string

record api_group =
  base_url :: string
  timeout :: nat
  retries :: nat

record config =
  auth :: auth
  defaults :: defaults_group
  api :: api_group

definition DEFAULT_CONFIG :: config where
  "DEFAULT_CONFIG =
     \<lparr> auth = Map.empty,
       defaults = \<lparr> reviewers = [], delete_source_branch = True,
                    merge_strategy = ''merge_commit'', default_branch = ''main'' \<rparr>,
       api = \<lparr> base_url = ''https://api.bitbucket.org/2.0'', timeout = 30, retries = 3 \<rparr> \<rparr>"

type_synonym headers = "(string \<times> string) list"

definition auth_header_set :: "string \<Rightarrow> headers" where
  "auth_header_set authorization =
     [(''Authorization'', authorization),
      (''Accept'', ''application/json''),
      (''Content-Type'', ''application/json''),
      (''User-Agent'', ''bitbucket-cli-for-claude-code/1.0.0'')]"

definition get_auth_headers :: "config \<Rightarrow> environ \<Rightarrow> error + headers" where
  "get_auth_headers cfg env =
     (let a = auth cfg;
          repo_token = py_or (a ''repo_token'') (env ''BITBUCKET_REPO_TOKEN'');
          oauth_token = py_or (a ''oauth_token'') (env ''BITBUCKET_OAUTH_TOKEN'');
          username = py_or (a ''username'') (env ''BITBUCKET_USERNAME'');
          app_password = py_or (a ''app_password'') (env ''BITBUCKET_APP_PASSWORD'')
      in if truthy repo_token then Inr (auth_header_set (''Bearer '' @ fmt repo_token))
         else if truthy oauth_token then Inr (auth_header_set (''Bearer '' @ fmt oauth_token))
         else if truthy username \<and> truthy app_password then
           Inr (auth_header_set
                  (''Basic '' @ b64encode (fmt username @ '':'' @ fmt app_password)))
         else Inl (AuthenticationError
                (''No authentication configured. Use:'' @ [CHR 0x0A] @
                 ''  bb-pr config --repo-token YOUR_REPO_TOKEN'' @ [CHR 0x0A] @
                 ''  OR export BITBUCKET_REPO_TOKEN=your_token'')))"

definition is_authenticated :: "config \<Rightarrow> environ \<Rightarrow> bool" where
  "is_authenticated cfg env =
     (let a = auth cfg;
          repo_token = py_or (a ''repo_token'') (env ''BITBUCKET_REPO_TOKEN'');
          oauth_token = py_or (a ''oauth_token'') (env ''BITBUCKET_OAUTH_TOKEN'');
          username = py_or (a ''username'') (env ''BITBUCKET_USERNAME'');
          app_password = py_or (a ''app_password'') (env ''BITBUCKET_APP_PASSWORD'')
      in if truthy repo_token then True
         else if truthy oauth_token then True
         else truthy username \<and> truthy app_password)"


subsection \<open>The configuration file: \<open>load_config\<close>, \<open>save_config\<close>, \<open>set_auth\<close>\<close>

text \<open>
  The file at \<open>CONFIG_FILE\<close> is absent, or cannot be parsed as YAML, or cannot be read
  into a mapping, or holds a mapping; \<open>Stored c\<close> is a file whose mapping, merged over
  \<open>DEFAULT_CONFIG\<close> by \<open>merge_configs\<close>, is \<open>c\<close>. \<open>write_error\<close> is the error of the
  operating system, if any, that writing the file meets.
\<close>

datatype config_file = Missing | InvalidYAML string | Unreadable string | Stored config

record disk =
  contents :: config_file
  write_error :: "string option"

definition save_config :: "config \<Rightarrow> disk \<Rightarrow> (error + unit) \<times> disk" where
  "save_config cfg d =
     (case write_error d of
        Some e \<Rightarrow> (Inl (ConfigurationError (''Error saving config: '' @ e)), d)
      | None \<Rightarrow> (Inr (), d\<lparr>contents := Stored cfg\<rparr>))"

definition load_config :: "disk \<Rightarrow> (error + config) \<times> disk" where
  "load_config d =
     (case contents d of
        Missing \<Rightarrow>
          (case save_config DEFAULT_CONFIG d of
             (Inl e, d') \<Rightarrow> (Inl e, d')
           | (Inr u, d') \<Rightarrow> (Inr DEFAULT_CONFIG, d'))
      | InvalidYAML e \<Rightarrow>
          (Inl (ConfigurationError (''Invalid YAML in config file: '' @ e)), d)
      | Unreadable e \<Rightarrow> (Inl (ConfigurationError (''Error loading config: '' @ e)), d)
      | Stored c \<Rightarrow> (Inr c, d))"

definition set_slot :: "config \<Rightarrow> string \<Rightarrow> string option \<Rightarrow> config" where
  "set_slot cfg k v = cfg\<lparr>auth := (auth cfg)(k := v)\<rparr>"

definition set_auth ::
  "string option \<Rightarrow> string option \<Rightarrow> string option \<Rightarrow> string option \<Rightarrow> string option \<Rightarrow>
   disk \<Rightarrow> (error + unit) \<times> disk" where
  "set_auth repo_token username app_password workspace oauth_token d =
     (case load_config d of
        (Inl e, d') \<Rightarrow> (Inl e, d')
      | (Inr c0, d') \<Rightarrow>
          (let c1 = (if truthy repo_token then
                       set_slot (set_slot (set_slot (set_slot c0 ''repo_token'' repo_token)
                         ''username'' None) ''app_password'' None) ''oauth_token'' None
                     else c0);
               c2 = (if truthy username then set_slot c1 ''username'' username else c1);
               c3 = (if truthy app_password then set_slot c2 ''app_password'' app_password
                     else c2);
               c4 = (if truthy workspace then set_slot c3 ''workspace'' workspace else c3);
               c5 = (if truthy oauth_token then
                       set_slot (set_slot (set_slot c4 ''oauth_token'' oauth_token)
                         ''username'' None) ''app_password'' None
                     else c4)
           in save_config c5 d'))"

section \<open>Decoded JSON and the Python operations applied to it\<close>

datatype jvalue =
    JNull
  | JBool bool
  | JInt int
  | JStr string
  | JArr "jvalue list"
  | JObj "(string \<times> jvalue) list"

text \<open>Truth value of a decoded value, as \<open>if v:\<close> tests it.\<close>

fun jtruthy :: "jvalue \<Rightarrow> bool" where
  "jtruthy JNull = False"
| "jtruthy (JBool b) = b"
| "jtruthy (JInt i) = (i \<noteq> 0)"
| "jtruthy (JStr s) = (s \<noteq> [])"
| "jtruthy (JArr xs) = (xs \<noteq> [])"
| "jtruthy (JObj kv) = (kv \<noteq> [])"

fun type_name :: "jvalue \<Rightarrow> string" where
  "type_name JNull = ''NoneType''"
| "type_name (JBool b) = ''bool''"
| "type_name (JInt i) = ''int''"
| "type_name (JStr s) = ''str''"
| "type_name (JArr xs) = ''list''"
| "type_name (JObj kv) = ''dict''"

definition quoted :: "string \<Rightarrow> string" where
  "quoted s = [CHR 0x27] @ s @ [CHR 0x27]"

definition no_attribute :: "jvalue \<Rightarrow> string \<Rightarrow> error" where
  "no_attribute v name =
     AttributeError (quoted (type_name v) @ '' object has no attribute '' @ quoted name)"

text \<open>\<open>v.get(k, default)\<close>: defined on dictionaries only.\<close>

definition py_get :: "jvalue \<Rightarrow> string \<Rightarrow> jvalue \<Rightarrow> error + jvalue" where
  "py_get v k dflt =
     (case v of
        JObj d \<Rightarrow> (case map_of d k of None \<Rightarrow> Inr dflt | Some x \<Rightarrow> Inr x)
      | _ \<Rightarrow> Inl (no_attribute v ''get''))"

text \<open>\<open>k in v\<close> for a string \<open>k\<close>: key of a dictionary, element of a list, substring of a string.\<close>

definition py_contains :: "string \<Rightarrow> jvalue \<Rightarrow> error + bool" where
  "py_contains k v =
     (case v of
        JObj d \<Rightarrow> Inr (k \<in> set (map fst d))
      | JArr xs \<Rightarrow> Inr (JStr k \<in> set xs)
      | JStr s \<Rightarrow> Inr (sublist k s)
      | _ \<Rightarrow> Inl (TypeError (''argument of type '' @ quoted (type_name v) @ '' is not iterable'')))"

text \<open>\<open>v[k]\<close> for a string \<open>k\<close>.\<close>

definition py_getitem :: "jvalue \<Rightarrow> string \<Rightarrow> error + jvalue" where
  "py_getitem v k =
     (case v of
        JObj d \<Rightarrow> (case map_of d k of None \<Rightarrow> Inl (KeyError (quoted k))
                   | Some x \<Rightarrow> Inr x)
      | JArr xs \<Rightarrow> Inl (TypeError ''list indices must be integers or slices, not str'')
      | JStr s \<Rightarrow> Inl (TypeError ''string indices must be integers'')
      | _ \<Rightarrow> Inl (TypeError (quoted (type_name v) @ '' object is not subscriptable'')))"

text \<open>The elements \<open>list.extend(v)\<close> appends: those of a list, the characters of a string,
  the keys of a dictionary.\<close>

definition py_iter :: "jvalue \<Rightarrow> error + jvalue list" where
  "py_iter v =
     (case v of
        JArr xs \<Rightarrow> Inr xs
      | JStr s \<Rightarrow> Inr (map (\<lambda>c. JStr [c]) s)
      | JObj d \<Rightarrow> Inr (map (\<lambda>(k, x). JStr k) d)
      | _ \<Rightarrow> Inl (TypeError (quoted (type_name v) @ '' object is not iterable'')))"

text \<open>
  What an f-string writes for a decoded value: a string is written as it is, any other
  value through Python's \<open>str\<close>, which is a parameter \<open>str\<close> of the functions below.
\<close>

definition fmt_value :: "(jvalue \<Rightarrow> string) \<Rightarrow> jvalue \<Rightarrow> string" where
  "fmt_value str v = (case v of JStr s \<Rightarrow> s | _ \<Rightarrow> str v)"

text \<open>\<open>s.replace(old, new)\<close>.\<close>

function str_replace :: "string \<Rightarrow> string \<Rightarrow> string \<Rightarrow> string" where
  "str_replace s old new =
     (if old = [] then new @ concat (map (\<lambda>c. c # new) s)
      else if s = [] then []
      else if prefix old s then new @ str_replace (drop (length old) s) old new
      else hd s # str_replace (tl s) old new)"
  by pat_completeness auto
termination
  by (relation "measure (\<lambda>(s, old, new). length s)") auto

declare str_replace.simps [simp del]

text \<open>\<open>s.rstrip("/")\<close>.\<close>

definition rstrip_slash :: "string \<Rightarrow> string" where
  "rstrip_slash s = rev (dropWhile (\<lambda>c. c = CHR ''/'') (rev s))"


text \<open>\<open>d[k] = v\<close> and \<open>d.update(other)\<close> on a dictionary kept in insertion order.\<close>

fun dict_set :: "'k \<Rightarrow> 'v \<Rightarrow> ('k \<times> 'v) list \<Rightarrow> ('k \<times> 'v) list" where
  "dict_set k v [] = [(k, v)]"
| "dict_set k v ((k', v') # d) = (if k = k' then (k, v) # d else (k', v') # dict_set k v d)"

definition dict_update :: "('k \<times> 'v) list \<Rightarrow> ('k \<times> 'v) list \<Rightarrow> ('k \<times> 'v) list" where
  "dict_update d other = foldl (\<lambda>acc (k, v). dict_set k v acc) d other"

text \<open>Sequencing of two steps, the second skipped when the first raises.\<close>

definition and_then :: "error + 'a \<Rightarrow> ('a \<Rightarrow> error + 'b) \<Rightarrow> error + 'b" where
  "and_then r f = (case r of Inl e \<Rightarrow> Inl e | Inr x \<Rightarrow> f x)"

section \<open>The HTTP library as the client uses it\<close>

text \<open>
  A response as \<open>requests\<close> hands it over: \<open>json\<close> is the outcome of \<open>response.json()\<close>,
  the decoder's message when the body does not decode; \<open>retry_after\<close> tells whether the
  response carries a \<open>Retry-After\<close> header. Responses that redirect are not modelled.
\<close>

record http_response =
  status_code :: int
  reason :: string
  content :: string
  json :: "string + jvalue"
  retry_after :: bool

record http_request =
  req_method :: string
  req_url :: string
  req_headers :: headers
  req_timeout :: nat
  req_params :: "(string \<times> jvalue) list option"
  req_data :: "jvalue option"
  req_json :: "jvalue option"

text \<open>
  What one HTTP attempt meets: a response, a failure to connect, or a failure while
  reading the response.
\<close>

datatype net_event = Response http_response | ConnectFailure string | ReadFailure string

text \<open>
  \<open>urllib3.util.retry.Retry\<close> with the arguments the client passes, and \<open>raise_on_status\<close>,
  which the client leaves at the library's default. The remaining counters of the
  library (\<open>connect\<close>, \<open>read\<close>, \<open>status\<close>, \<open>other\<close>) stay unset and do not bound anything.
\<close>

record Retry =
  total :: int
  backoff_factor :: nat
  status_forcelist :: "int list"
  allowed_methods :: "string list"
  raise_on_status :: bool

definition is_method_retryable :: "Retry \<Rightarrow> string \<Rightarrow> bool" where
  "is_method_retryable rp m =
     (\<not> (allowed_methods rp \<noteq> [] \<and> m \<notin> set (allowed_methods rp)))"

definition RETRY_AFTER_STATUS_CODES :: "int list" where
  "RETRY_AFTER_STATUS_CODES = [413, 429, 503]"

definition is_retry :: "Retry \<Rightarrow> string \<Rightarrow> int \<Rightarrow> bool \<Rightarrow> bool" where
  "is_retry rp m status has_retry_after =
     (if \<not> is_method_retryable rp m then False
      else if status_forcelist rp \<noteq> [] \<and> status \<in> set (status_forcelist rp) then True
      else total rp \<noteq> 0 \<and> has_retry_after \<and> status \<in> set RETRY_AFTER_STATUS_CODES)"

definition increment :: "Retry \<Rightarrow> Retry" where
  "increment rp = rp\<lparr>total := total rp - 1\<rparr>"

definition is_exhausted :: "Retry \<Rightarrow> bool" where
  "is_exhausted rp = (total rp < 0)"

text \<open>
  \<open>HTTPAdapter.send\<close> over the connection pool's \<open>urlopen\<close>: the attempts made for one
  request against the events the network produces, in order. The result is the response
  handed back or the exception raised, the number of attempts made, and the events left.
  \<open>None\<close> means that the given events end before the request is settled.
\<close>

fun urlopen ::
  "Retry \<Rightarrow> string \<Rightarrow> net_event list \<Rightarrow> ((error + http_response) \<times> nat \<times> net_event list) option"
where
  "urlopen rp m [] = None"
| "urlopen rp m (ev # rest) =
     (case ev of
        Response r \<Rightarrow>
          (if is_retry rp m (status_code r) (retry_after r) then
             if is_exhausted (increment rp) then
               (if raise_on_status rp then
                  Some (Inl (RetryError
                         (''too many '' @ str_int (status_code r) @ '' error responses'')),
                        1, rest)
                else Some (Inr r, 1, rest))
             else
               (case urlopen (increment rp) m rest of
                  None \<Rightarrow> None
                | Some (res, n, rest') \<Rightarrow> Some (res, Suc n, rest'))
           else Some (Inr r, 1, rest))
      | ConnectFailure e \<Rightarrow>
          (if is_exhausted (increment rp) then Some (Inl (ConnectionError e), 1, rest)
           else
             (case urlopen (increment rp) m rest of
                None \<Rightarrow> None
              | Some (res, n, rest') \<Rightarrow> Some (res, Suc n, rest')))
      | ReadFailure e \<Rightarrow>
          (if \<not> is_method_retryable rp m then Some (Inl (ConnectionError e), 1, rest)
           else if is_exhausted (increment rp) then
             Some (Inl (ConnectionError e), 1, rest)
           else
             (case urlopen (increment rp) m rest of
                None \<Rightarrow> None
              | Some (res, n, rest') \<Rightarrow> Some (res, Suc n, rest'))))"

text \<open>
  What the process has done to the world so far, in order: an HTTP attempt, or a pacing
  pause (\<open>time.sleep(0.1)\<close>).
\<close>

datatype io_event = Sent http_request | Slept

text \<open>
  The world outside the process: the environment variables, the events the network will
  produce, and the trace of what the process has done so far.
\<close>

record world =
  environ :: environ
  network :: "net_event list"
  trace :: "io_event list"

text \<open>The HTTP attempts of a trace, and the number of its pauses.\<close>

definition sent :: "world \<Rightarrow> http_request list" where
  "sent w = concat (map (\<lambda>ev. case ev of Sent q \<Rightarrow> [q] | Slept \<Rightarrow> []) (trace w))"

definition slept :: "world \<Rightarrow> nat" where
  "slept w = length (filter (\<lambda>ev. ev = Slept) (trace w))"

text \<open>\<open>session.request\<close> of a session whose adapters carry the retry policy.\<close>

definition session_request ::
  "Retry \<Rightarrow> http_request \<Rightarrow> world \<Rightarrow> ((error + http_response) \<times> world) option" where
  "session_request rp req w =
     (case urlopen rp (req_method req) (network w) of
        None \<Rightarrow> None
      | Some (res, n, rest) \<Rightarrow>
          Some (res, w\<lparr>network := rest, trace := trace w @ replicate n (Sent req)\<rparr>))"

text \<open>\<open>requests.get\<close> of the module: a fresh session, whose policy makes one attempt.\<close>

definition requests_get ::
  "http_request \<Rightarrow> world \<Rightarrow> ((error + http_response) \<times> world) option" where
  "requests_get req w =
     (case network w of
        [] \<Rightarrow> None
      | ev # rest \<Rightarrow>
          Some ((case ev of
                   Response r \<Rightarrow> Inr r
                 | ConnectFailure e \<Rightarrow> Inl (ConnectionError e)
                 | ReadFailure e \<Rightarrow> Inl (ConnectionError e)),
                w\<lparr>network := rest, trace := trace w @ [Sent req]\<rparr>))"


section \<open>The API client (\<open>api.py\<close>)\<close>

record BitbucketAPI =
  self_config :: config
  self_base_url :: string
  self_timeout :: nat
  self_max_retries :: nat
  self_retry_strategy :: Retry

definition BitbucketAPI_init :: "config \<Rightarrow> BitbucketAPI" where
  "BitbucketAPI_init cfg =
     \<lparr> self_config = cfg,
       self_base_url = rstrip_slash (base_url (api cfg)),
       self_timeout = timeout (api cfg),
       self_max_retries = retries (api cfg),
       self_retry_strategy =
         \<lparr> total = int (retries (api cfg)),
           backoff_factor = 1,
           status_forcelist = [429, 500, 502, 503, 504],
           allowed_methods = [''HEAD'', ''GET'', ''OPTIONS''],
           raise_on_status = True \<rparr> \<rparr>"

definition get_headers :: "BitbucketAPI \<Rightarrow> environ \<Rightarrow> error + headers" where
  "get_headers self env = get_auth_headers (self_config self) env"

definition handle_response :: "(jvalue \<Rightarrow> string) \<Rightarrow> http_response \<Rightarrow> error + jvalue" where
  "handle_response str response =
     (if status_code response = 200 \<or> status_code response = 201 then
        (if content response \<noteq> [] then
           (case json response of Inl e \<Rightarrow> Inl (JSONDecodeError e) | Inr v \<Rightarrow> Inr v)
         else Inr (JObj []))
      else if status_code response = 204 then Inr (JObj [])
      else if status_code response = 401 then
        Inl (AuthenticationError ''Authentication failed. Check your credentials.'')
      else if status_code response = 403 then
        Inl (PermissionError ''Insufficient permissions for this operation.'')
      else if status_code response = 404 then Inl (NotFoundError ''Resource not found.'')
      else if status_code response = 409 then
        Inl (ConflictError
               ''Conflict - operation cannot be completed (e.g., PR already merged).'')
      else if status_code response = 429 then
        Inl (RateLimitError ''Rate limit exceeded. Please wait and try again.'')
      else
        (let fallback = ''HTTP '' @ str_int (status_code response) @ '': '' @ reason response;
             message =
               (case json response of
                  Inl e \<Rightarrow> fallback
                | Inr error_data \<Rightarrow>
                    (case and_then (py_get error_data ''error'' (JObj []))
                            (\<lambda>err. py_get err ''message''
                                     (JStr (''HTTP '' @ str_int (status_code response)))) of
                       Inl e \<Rightarrow> fallback
                     | Inr msg \<Rightarrow> fmt_value str msg))
         in Inl (BitbucketAPIError (''API Error: '' @ message))))"

text \<open>The keyword arguments \<open>_request\<close> passes on to the session.\<close>

record kwargs =
  kw_headers :: "headers option"
  kw_params :: "(string \<times> jvalue) list option"
  kw_data :: "jvalue option"
  kw_json :: "jvalue option"

definition no_kwargs :: kwargs where
  "no_kwargs = \<lparr> kw_headers = None, kw_params = None, kw_data = None, kw_json = None \<rparr>"

definition request ::
  "(jvalue \<Rightarrow> string) \<Rightarrow> BitbucketAPI \<Rightarrow> string \<Rightarrow> string \<Rightarrow> kwargs \<Rightarrow> world \<Rightarrow>
   ((error + jvalue) \<times> world) option" where
  "request str self m endpoint kw w =
     (let url = self_base_url self @ endpoint in
      case get_headers self (environ w) of
        Inl e \<Rightarrow> Some (Inl e, w)
      | Inr hs \<Rightarrow>
          (let hs' = (case kw_headers kw of None \<Rightarrow> hs | Some other \<Rightarrow> dict_update hs other);
               req = \<lparr> req_method = m, req_url = url, req_headers = hs',
                       req_timeout = self_timeout self, req_params = kw_params kw,
                       req_data = kw_data kw, req_json = kw_json kw \<rparr>
           in case session_request (self_retry_strategy self) req w of
                None \<Rightarrow> None
              | Some (Inl e, w') \<Rightarrow> Some (Inl e, w')
              | Some (Inr response, w') \<Rightarrow> Some (handle_response str response, w')))"

definition get ::
  "(jvalue \<Rightarrow> string) \<Rightarrow> BitbucketAPI \<Rightarrow> string \<Rightarrow> (string \<times> jvalue) list option \<Rightarrow> world \<Rightarrow>
   ((error + jvalue) \<times> world) option" where
  "get str self endpoint params w =
     request str self ''GET'' endpoint (no_kwargs\<lparr>kw_params := params\<rparr>) w"

definition opt_truthy :: "jvalue option \<Rightarrow> bool" where
  "opt_truthy v = (case v of None \<Rightarrow> False | Some x \<Rightarrow> jtruthy x)"

definition body_kwargs :: "jvalue option \<Rightarrow> jvalue option \<Rightarrow> kwargs" where
  "body_kwargs data js =
     (let kw1 = (if opt_truthy data then no_kwargs\<lparr>kw_data := data\<rparr> else no_kwargs)
      in if opt_truthy js then kw1\<lparr>kw_json := js\<rparr> else kw1)"

definition post ::
  "(jvalue \<Rightarrow> string) \<Rightarrow> BitbucketAPI \<Rightarrow> string \<Rightarrow> jvalue option \<Rightarrow> jvalue option \<Rightarrow> world \<Rightarrow>
   ((error + jvalue) \<times> world) option" where
  "post str self endpoint data js w = request str self ''POST'' endpoint (body_kwargs data js) w"

definition put ::
  "(jvalue \<Rightarrow> string) \<Rightarrow> BitbucketAPI \<Rightarrow> string \<Rightarrow> jvalue option \<Rightarrow> jvalue option \<Rightarrow> world \<Rightarrow>
   ((error + jvalue) \<times> world) option" where
  "put str self endpoint data js w = request str self ''PUT'' endpoint (body_kwargs data js) w"

definition delete ::
  "(jvalue \<Rightarrow> string) \<Rightarrow> BitbucketAPI \<Rightarrow> string \<Rightarrow> world \<Rightarrow> ((error + jvalue) \<times> world) option"
where
  "delete str self endpoint w = request str self ''DELETE'' endpoint no_kwargs w"

subsection \<open>Pagination\<close>

text \<open>\<open>if "values" in response: results.extend(response["values"])\<close>.\<close>

definition extend_values :: "jvalue list \<Rightarrow> jvalue \<Rightarrow> error + jvalue list" where
  "extend_values results response =
     and_then (py_contains ''values'' response) (\<lambda>present.
       if present then
         and_then (py_getitem response ''values'') (\<lambda>v.
           and_then (py_iter v) (\<lambda>xs. Inr (results @ xs)))
       else Inr results)"

text \<open>
  The \<open>while url:\<close> loop of \<open>get_all_pages\<close>. The variable \<open>url\<close> first holds the endpoint
  and then whatever the response has under \<open>next\<close> (\<open>JNull\<close> for Python's \<open>None\<close>). The
  loop ends only when a response has no true \<open>next\<close>; \<open>None\<close> is the run that does not
  return on the events given.
\<close>

partial_function (option) get_all_pages_loop ::
  "(jvalue \<Rightarrow> string) \<Rightarrow> BitbucketAPI \<Rightarrow> (string \<times> jvalue) list option \<Rightarrow> jvalue \<Rightarrow> bool \<Rightarrow>
   jvalue list \<Rightarrow> world \<Rightarrow> ((error + jvalue list) \<times> world) option" where
  "get_all_pages_loop str self params url is_first_request results w =
     (if \<not> jtruthy url then Some (Inr results, w)
      else
        (case (if is_first_request then get str self (fmt_value str url) params w
               else
                 (case url of
                    JStr u \<Rightarrow> get str self (str_replace u (self_base_url self) []) None w
                  | _ \<Rightarrow> Some (Inl (no_attribute url ''replace''), w))) of
           None \<Rightarrow> None
         | Some (Inl e, w1) \<Rightarrow> Some (Inl e, w1)
         | Some (Inr response, w1) \<Rightarrow>
             (case extend_values results response of
                Inl e \<Rightarrow> Some (Inl e, w1)
              | Inr results' \<Rightarrow>
                  (case py_get response ''next'' JNull of
                     Inl e \<Rightarrow> Some (Inl e, w1)
                   | Inr url' \<Rightarrow>
                       get_all_pages_loop str self params url' False results'
                         (if jtruthy url' then w1\<lparr>trace := trace w1 @ [Slept]\<rparr> else w1)))))"

declare get_all_pages_loop.simps [code]

definition get_all_pages ::
  "(jvalue \<Rightarrow> string) \<Rightarrow> BitbucketAPI \<Rightarrow> string \<Rightarrow> (string \<times> jvalue) list option \<Rightarrow> world \<Rightarrow>
   ((error + jvalue list) \<times> world) option" where
  "get_all_pages str self endpoint params w =
     get_all_pages_loop str self params (JStr endpoint) True [] w"

definition page_of :: "jvalue \<Rightarrow> error + jvalue" where
  "page_of response =
     and_then (py_get response ''values'' (JArr [])) (\<lambda>vs.
     and_then (py_get response ''page'' (JInt 1)) (\<lambda>pg.
     and_then (py_get response ''pagelen'' (JInt 10)) (\<lambda>pl.
     and_then (py_get response ''size'' (JInt 0)) (\<lambda>sz.
     and_then (py_get response ''next'' JNull) (\<lambda>nx.
     and_then (py_get response ''previous'' JNull) (\<lambda>pv.
       Inr (JObj [(''values'', vs), (''page'', pg), (''pagelen'', pl), (''size'', sz),
                  (''next'', nx), (''previous'', pv)])))))))"

definition get_paginated ::
  "(jvalue \<Rightarrow> string) \<Rightarrow> BitbucketAPI \<Rightarrow> string \<Rightarrow> (string \<times> jvalue) list option \<Rightarrow> world \<Rightarrow>
   ((error + jvalue) \<times> world) option" where
  "get_paginated str self endpoint params w =
     (case get str self endpoint params w of
        None \<Rightarrow> None
      | Some (Inl e, w1) \<Rightarrow> Some (Inl e, w1)
      | Some (Inr response, w1) \<Rightarrow> Some (page_of response, w1))"

subsection \<open>Comments\<close>

definition int_truthy :: "int option \<Rightarrow> bool" where
  "int_truthy v = (case v of None \<Rightarrow> False | Some i \<Rightarrow> i \<noteq> 0)"

definition opt_int :: "int option \<Rightarrow> jvalue" where
  "opt_int v = (case v of None \<Rightarrow> JNull | Some i \<Rightarrow> JInt i)"

definition opt_str :: "string option \<Rightarrow> jvalue" where
  "opt_str v = (case v of None \<Rightarrow> JNull | Some s \<Rightarrow> JStr s)"

text \<open>The payload \<open>add_comment\<close> builds before it posts it.\<close>

definition add_comment_payload ::
  "string \<Rightarrow> string option \<Rightarrow> int option \<Rightarrow> int option \<Rightarrow> int option \<Rightarrow> int option \<Rightarrow>
   (string \<times> jvalue) list" where
  "add_comment_payload message file line from_line to_line reply_to =
     (let payload0 = [(''content'', JObj [(''raw'', JStr message)])];
          payload1 =
            (if truthy file then
               (let to0 = [(''path'', opt_str file)];
                    to1 = (if int_truthy line then dict_set ''line'' (opt_int line) to0 else to0);
                    inline1 = [(''to'', JObj to1)];
                    inline2 =
                      (if int_truthy from_line \<and> int_truthy to_line then
                         dict_set ''to'' (JObj (dict_set ''line'' (opt_int to_line) to1))
                           (dict_set ''from''
                              (JObj [(''path'', opt_str file), (''line'', opt_int from_line)])
                              inline1)
                       else inline1)
                in dict_set ''inline'' (JObj inline2) payload0)
             else payload0)
      in if int_truthy reply_to then
           dict_set ''parent'' (JObj [(''id'', opt_int reply_to)]) payload1
         else payload1)"

definition add_comment ::
  "(jvalue \<Rightarrow> string) \<Rightarrow> BitbucketAPI \<Rightarrow> string \<Rightarrow> string \<Rightarrow> int \<Rightarrow> string \<Rightarrow> string option \<Rightarrow>
   int option \<Rightarrow> int option \<Rightarrow> int option \<Rightarrow> int option \<Rightarrow> world \<Rightarrow>
   ((error + jvalue) \<times> world) option" where
  "add_comment str self workspace repo pr_id message file line from_line to_line reply_to w =
     post str self
       (''/repositories/'' @ workspace @ ''/'' @ repo @ ''/pullrequests/'' @ str_int pr_id @
        ''/comments'')
       None
       (Some (JObj (add_comment_payload message file line from_line to_line reply_to))) w"

text \<open>Reading a decoded value along a path of keys.\<close>

fun jpath :: "jvalue \<Rightarrow> string list \<Rightarrow> jvalue option" where
  "jpath v [] = Some v"
| "jpath (JObj d) (k # ks) = (case map_of d k of None \<Rightarrow> None | Some x \<Rightarrow> jpath x ks)"
| "jpath v (k # ks) = None"

section \<open>Validation of the credential (\<open>validate_auth\<close>)\<close>

definition validate_auth_try :: "config \<Rightarrow> world \<Rightarrow> ((error + jvalue) \<times> world) option" where
  "validate_auth_try cfg w =
     (case get_auth_headers cfg (environ w) of
        Inl e \<Rightarrow> Some (Inl e, w)
      | Inr hs \<Rightarrow>
          (let repo_token = py_or (auth cfg ''repo_token'') (environ w ''BITBUCKET_REPO_TOKEN'')
           in if truthy repo_token then
                Some (Inr (JObj [(''valid'', JBool True),
                                 (''user'', JObj [(''username'', JStr ''repository-token-user''),
                                                  (''display_name'', JStr ''Repository Token User''),
                                                  (''uuid'', JNull)])]), w)
              else
                (case requests_get
                        \<lparr> req_method = ''GET'', req_url = base_url (api cfg) @ ''/user'',
                          req_headers = hs, req_timeout = timeout (api cfg),
                          req_params = None, req_data = None, req_json = None \<rparr> w of
                   None \<Rightarrow> None
                 | Some (Inl e, w1) \<Rightarrow> Some (Inl e, w1)
                 | Some (Inr response, w1) \<Rightarrow>
                     Some
                       (if status_code response = 401 then
                          Inl (AuthenticationError
                                 ''Invalid credentials. Check your username and app password.'')
                        else if status_code response \<noteq> 200 then
                          Inl (AuthenticationError
                                 (''Authentication failed: '' @ str_int (status_code response) @
                                  '' '' @ reason response))
                        else
                          (case json response of
                             Inl e \<Rightarrow> Inl (JSONDecodeError e)
                           | Inr user_data \<Rightarrow>
                               and_then (py_get user_data ''username'' JNull) (\<lambda>un.
                               and_then (py_get user_data ''display_name'' JNull) (\<lambda>dn.
                               and_then (py_get user_data ''uuid'' JNull) (\<lambda>uu.
                                 Inr (JObj [(''valid'', JBool True),
                                            (''user'', JObj [(''username'', un),
                                                             (''display_name'', dn),
                                                             (''uuid'', uu)])]))))),
                        w1))))"

text \<open>The two \<open>except\<close> clauses around the body of \<open>validate_auth\<close>.\<close>

definition validate_auth_except :: "error \<Rightarrow> error" where
  "validate_auth_except e =
     (if is_RequestException e then
        AuthenticationError (''Network error during authentication: '' @ str_exc e)
      else AuthenticationError (''Authentication validation failed: '' @ str_exc e))"

definition validate_auth :: "config \<Rightarrow> world \<Rightarrow> ((error + jvalue) \<times> world) option" where
  "validate_auth cfg w =
     (case validate_auth_try cfg w of
        None \<Rightarrow> None
      | Some (Inl e, w') \<Rightarrow> Some (Inl (validate_auth_except e), w')
      | Some (Inr v, w') \<Rightarrow> Some (Inr v, w'))"

section \<open>Observations and sample inputs\<close>

text \<open>The value stored in a slot of the \<open>auth\<close> group of the configuration file.\<close>

definition stored_auth :: "disk \<Rightarrow> string \<Rightarrow> string option" where
  "stored_auth d k = (case contents d of Stored c \<Rightarrow> auth c k | _ \<Rightarrow> None)"

text \<open>Inputs at which the theorems below are instantiated.\<close>

definition sample_disk :: "auth \<Rightarrow> disk" where
  "sample_disk a = \<lparr> contents = Stored (DEFAULT_CONFIG\<lparr>auth := a\<rparr>), write_error = None \<rparr>"

definition sample_config :: "nat \<Rightarrow> config" where
  "sample_config n =
     DEFAULT_CONFIG\<lparr> auth := [''repo_token'' \<mapsto> ''tok''],
                     api := (api DEFAULT_CONFIG)\<lparr>retries := n\<rparr> \<rparr>"

definition sample_response :: "int \<Rightarrow> string \<Rightarrow> string + jvalue \<Rightarrow> http_response" where
  "sample_response c b j =
     \<lparr> status_code = c, reason = ''R'', content = b, json = j, retry_after = False \<rparr>"

definition sample_world :: "net_event list \<Rightarrow> world" where
  "sample_world evs = \<lparr> environ = Map.empty, network = evs, trace = [] \<rparr>"

text \<open>
  A page as the server returns it: a response with status 200 whose body is empty (which
  the client reads as the empty object) or decodes to the object \<open>d\<close>.
\<close>

definition page_response :: "http_response \<Rightarrow> (string \<times> jvalue) list \<Rightarrow> bool" where
  "page_response r d =
     (status_code r = 200 \<and> (if content r = [] then d = [] else json r = Inr (JObj d)))"

text \<open>The \<open>next\<close> cursor of a page (\<open>JNull\<close> when it has none) and its items.\<close>

definition next_of :: "(string \<times> jvalue) list \<Rightarrow> jvalue" where
  "next_of d = (case map_of d ''next'' of None \<Rightarrow> JNull | Some v \<Rightarrow> v)"

definition page_values :: "(string \<times> jvalue) list \<Rightarrow> jvalue list" where
  "page_values d = (case map_of d ''values'' of Some (JArr xs) \<Rightarrow> xs | _ \<Rightarrow> [])"

text \<open>The \<open>values\<close> of a page, when it has them, are a list.\<close>

definition has_values_list :: "(string \<times> jvalue) list \<Rightarrow> bool" where
  "has_values_list d =
     (case map_of d ''values'' of None \<Rightarrow> True | Some (JArr xs) \<Rightarrow> True | Some _ \<Rightarrow> False)"

text \<open>
  A sequence of pages as the server chains them: every page but the last has a non-empty
  string as its \<open>next\<close> cursor, and the last has no cursor that counts as true.
\<close>

fun page_chain :: "(string \<times> jvalue) list list \<Rightarrow> bool" where
  "page_chain [] = False"
| "page_chain [d] = (\<not> jtruthy (next_of d))"
| "page_chain (d # d' # ds) =
     ((case next_of d of JStr u \<Rightarrow> u \<noteq> [] | _ \<Rightarrow> False) \<and> page_chain (d' # ds))"

definition sample_page :: "jvalue list \<Rightarrow> string \<Rightarrow> (string \<times> jvalue) list" where
  "sample_page vs nx = (''values'', JArr vs) # (if nx = [] then [] else [(''next'', JStr nx)])"

section \<open>Credential resolution\<close>

text \<open>
  C10. For every configuration and environment, \<open>is_authenticated\<close> is true exactly when
  \<open>get_auth_headers\<close> returns a header set, and false exactly when it raises
  \<open>AuthenticationError\<close>: both read the same slots, with the same environment overrides,
  and both take a partial username/app-password pair as absent.
\<close>

theorem is_authenticated_agrees_with_get_auth_headers:
  "(is_authenticated cfg env \<longleftrightarrow> (\<exists>hs. get_auth_headers cfg env = Inr hs)) \<and>
   (\<not> is_authenticated cfg env \<longleftrightarrow>
      (\<exists>m. get_auth_headers cfg env = Inl (AuthenticationError m)))"
  by (simp add: is_authenticated_def get_auth_headers_def Let_def)

theorem is_authenticated_agrees_with_get_auth_headers_witness:
  "(\<exists>hs. get_auth_headers
           (DEFAULT_CONFIG\<lparr>auth := [''username'' \<mapsto> ''u'', ''app_password'' \<mapsto> ''p'']\<rparr>)
           Map.empty = Inr hs) \<and>
   (\<exists>m. get_auth_headers (DEFAULT_CONFIG\<lparr>auth := [''username'' \<mapsto> ''u'']\<rparr>)
          [''BITBUCKET_APP_PASSWORD'' \<mapsto> []] = Inl (AuthenticationError m))"
proof -
  have a: "is_authenticated
             (DEFAULT_CONFIG\<lparr>auth := [''username'' \<mapsto> ''u'', ''app_password'' \<mapsto> ''p'']\<rparr>)
             Map.empty"
    by (simp add: is_authenticated_def py_or_def truthy_def)
  have b: "\<not> is_authenticated (DEFAULT_CONFIG\<lparr>auth := [''username'' \<mapsto> ''u'']\<rparr>)
               [''BITBUCKET_APP_PASSWORD'' \<mapsto> []]"
    by (simp add: is_authenticated_def py_or_def truthy_def)
  from a b show ?thesis
    using is_authenticated_agrees_with_get_auth_headers
            [of "DEFAULT_CONFIG\<lparr>auth := [''username'' \<mapsto> ''u'', ''app_password'' \<mapsto> ''p'']\<rparr>"
                Map.empty]
          is_authenticated_agrees_with_get_auth_headers
            [of "DEFAULT_CONFIG\<lparr>auth := [''username'' \<mapsto> ''u'']\<rparr>"
                "[''BITBUCKET_APP_PASSWORD'' \<mapsto> []]"]
    by blast
qed

text \<open>
  C4. \<open>get_auth_headers\<close> takes the schemes in priority order and returns the header set
  of the first one present: the repository token (configuration, else environment) as a
  Bearer header; else the OAuth token as a Bearer header; else the username and app
  password, both required, as a Basic header; else it raises \<open>AuthenticationError\<close>. A
  header set holds one \<open>Authorization\<close> entry, so schemes are never merged. In particular
  a configuration holding a repository token and a username/app-password pair gets the
  Bearer header of the repository token, never a Basic header.
\<close>

theorem get_auth_headers_priority:
  fixes cfg :: config and env :: environ
  defines "repo_token \<equiv> py_or (auth cfg ''repo_token'') (env ''BITBUCKET_REPO_TOKEN'')"
      and "oauth_token \<equiv> py_or (auth cfg ''oauth_token'') (env ''BITBUCKET_OAUTH_TOKEN'')"
      and "username \<equiv> py_or (auth cfg ''username'') (env ''BITBUCKET_USERNAME'')"
      and "app_password \<equiv> py_or (auth cfg ''app_password'') (env ''BITBUCKET_APP_PASSWORD'')"
  shows
  "(truthy repo_token \<longrightarrow>
      get_auth_headers cfg env = Inr (auth_header_set (''Bearer '' @ fmt repo_token))) \<and>
   (\<not> truthy repo_token \<and> truthy oauth_token \<longrightarrow>
      get_auth_headers cfg env = Inr (auth_header_set (''Bearer '' @ fmt oauth_token))) \<and>
   (\<not> truthy repo_token \<and> \<not> truthy oauth_token \<and> truthy username \<and> truthy app_password \<longrightarrow>
      get_auth_headers cfg env =
        Inr (auth_header_set
               (''Basic '' @ b64encode (fmt username @ '':'' @ fmt app_password)))) \<and>
   (\<not> truthy repo_token \<and> \<not> truthy oauth_token \<and>
    \<not> (truthy username \<and> truthy app_password) \<longrightarrow>
      (\<exists>m. get_auth_headers cfg env = Inl (AuthenticationError m))) \<and>
   (\<forall>tok u p. auth cfg ''repo_token'' = Some tok \<and> tok \<noteq> [] \<and>
        auth cfg ''username'' = Some u \<and> auth cfg ''app_password'' = Some p \<longrightarrow>
      get_auth_headers cfg env = Inr (auth_header_set (''Bearer '' @ tok)) \<and>
      map_of (auth_header_set (''Bearer '' @ tok)) ''Authorization'' = Some (''Bearer '' @ tok) \<and>
      \<not> prefix ''Basic '' (''Bearer '' @ tok))"
  unfolding repo_token_def oauth_token_def username_def app_password_def
  by (auto simp add: get_auth_headers_def Let_def py_or_def truthy_def fmt_def
                     auth_header_set_def)

theorem get_auth_headers_priority_witness:
  "get_auth_headers
     (DEFAULT_CONFIG\<lparr>auth := [''repo_token'' \<mapsto> ''tok'', ''username'' \<mapsto> ''u'',
                               ''app_password'' \<mapsto> ''p'']\<rparr>) Map.empty
     = Inr (auth_header_set ''Bearer tok'') \<and>
   get_auth_headers (DEFAULT_CONFIG\<lparr>auth := [''oauth_token'' \<mapsto> ''o'']\<rparr>)
     [''BITBUCKET_USERNAME'' \<mapsto> ''u'', ''BITBUCKET_APP_PASSWORD'' \<mapsto> ''p'']
     = Inr (auth_header_set ''Bearer o'') \<and>
   get_auth_headers (DEFAULT_CONFIG\<lparr>auth := [''username'' \<mapsto> ''u'']\<rparr>)
     [''BITBUCKET_APP_PASSWORD'' \<mapsto> ''p'']
     = Inr (auth_header_set (''Basic '' @ b64encode ''u:p'')) \<and>
   (\<exists>m. get_auth_headers (DEFAULT_CONFIG\<lparr>auth := [''username'' \<mapsto> ''u'']\<rparr>) Map.empty
          = Inl (AuthenticationError m))"
  using get_auth_headers_priority
          [of "DEFAULT_CONFIG\<lparr>auth := [''repo_token'' \<mapsto> ''tok'', ''username'' \<mapsto> ''u'',
                                        ''app_password'' \<mapsto> ''p'']\<rparr>" Map.empty]
        get_auth_headers_priority
          [of "DEFAULT_CONFIG\<lparr>auth := [''oauth_token'' \<mapsto> ''o'']\<rparr>"
              "[''BITBUCKET_USERNAME'' \<mapsto> ''u'', ''BITBUCKET_APP_PASSWORD'' \<mapsto> ''p'']"]
        get_auth_headers_priority
          [of "DEFAULT_CONFIG\<lparr>auth := [''username'' \<mapsto> ''u'']\<rparr>"
              "[''BITBUCKET_APP_PASSWORD'' \<mapsto> ''p'']"]
        get_auth_headers_priority
          [of "DEFAULT_CONFIG\<lparr>auth := [''username'' \<mapsto> ''u'']\<rparr>" Map.empty]
  by (simp add: py_or_def truthy_def fmt_def)

text \<open>
  C2, as the code has it. After \<open>set_auth\<close> is called with a non-empty OAuth token and no
  other argument, on a configuration file that can be read and written, the OAuth token is
  stored and the stored username and app password are cleared; the stored repository
  token and the workspace are left as they were.
\<close>

theorem set_auth_oauth_clears_basic_auth_only:
  assumes "tok \<noteq> []" and "contents d = Stored c" and "write_error d = None"
  shows "fst (set_auth None None None None (Some tok) d) = Inr () \<and>
         stored_auth (snd (set_auth None None None None (Some tok) d)) ''oauth_token''
           = Some tok \<and>
         stored_auth (snd (set_auth None None None None (Some tok) d)) ''username'' = None \<and>
         stored_auth (snd (set_auth None None None None (Some tok) d)) ''app_password''
           = None \<and>
         stored_auth (snd (set_auth None None None None (Some tok) d)) ''repo_token''
           = auth c ''repo_token'' \<and>
         stored_auth (snd (set_auth None None None None (Some tok) d)) ''workspace''
           = auth c ''workspace''"
  using assms
  by (simp add: set_auth_def load_config_def save_config_def set_slot_def truthy_def
                stored_auth_def Let_def)

theorem set_auth_oauth_clears_basic_auth_only_witness:
  "stored_auth (snd (set_auth None None None None (Some ''o'')
       (sample_disk [''username'' \<mapsto> ''u'', ''app_password'' \<mapsto> ''p''])))
     ''username'' = None \<and>
   stored_auth (snd (set_auth None None None None (Some ''o'')
       (sample_disk [''username'' \<mapsto> ''u'', ''app_password'' \<mapsto> ''p''])))
     ''app_password'' = None \<and>
   stored_auth (snd (set_auth None None None None (Some ''o'')
       (sample_disk [''username'' \<mapsto> ''u'', ''app_password'' \<mapsto> ''p''])))
     ''oauth_token'' = Some ''o''"
  using set_auth_oauth_clears_basic_auth_only
          [of "''o''" "sample_disk [''username'' \<mapsto> ''u'', ''app_password'' \<mapsto> ''p'']"
              "DEFAULT_CONFIG\<lparr>auth := [''username'' \<mapsto> ''u'', ''app_password'' \<mapsto> ''p'']\<rparr>"]
  by (simp add: sample_disk_def)

text \<open>
  C2, as stated, fails: with a repository token stored, \<open>set_auth\<close> called with an OAuth
  token alone leaves the repository token in place next to the new OAuth token.
\<close>

theorem set_auth_oauth_keeps_repo_token_counterexample:
  "stored_auth (snd (set_auth None None None None (Some ''o'')
       (sample_disk [''repo_token'' \<mapsto> ''r''])))
     ''repo_token'' = Some ''r'' \<and>
   stored_auth (snd (set_auth None None None None (Some ''o'')
       (sample_disk [''repo_token'' \<mapsto> ''r''])))
     ''oauth_token'' = Some ''o''"
  by (simp add: set_auth_def load_config_def save_config_def set_slot_def truthy_def
                stored_auth_def sample_disk_def Let_def)

section \<open>Response classification\<close>

text \<open>
  C3. \<open>_handle_response\<close> maps every response by its status: 200 and 201 give the decoded
  body, and the empty object when the body is empty; 204 gives the empty object; 401, 403,
  404, 409 and 429 raise \<open>AuthenticationError\<close>, \<open>PermissionError\<close>, \<open>NotFoundError\<close>,
  \<open>ConflictError\<close> and \<open>RateLimitError\<close>; every other status raises \<open>BitbucketAPIError\<close>,
  whose message is the \<open>error.message\<close> field of the body when the body decodes to an
  object that has it, \<open>HTTP <code>\<close> when the object lacks the field, and
  \<open>HTTP <code>: <reason>\<close> when the body does not decode.
\<close>

theorem handle_response_classification:
  "((status_code r = 200 \<or> status_code r = 201) \<and> content r = [] \<longrightarrow>
      handle_response str r = Inr (JObj [])) \<and>
   (\<forall>v. (status_code r = 200 \<or> status_code r = 201) \<and> content r \<noteq> [] \<and> json r = Inr v \<longrightarrow>
      handle_response str r = Inr v) \<and>
   (status_code r = 204 \<longrightarrow> handle_response str r = Inr (JObj [])) \<and>
   (status_code r = 401 \<longrightarrow> (\<exists>m. handle_response str r = Inl (AuthenticationError m))) \<and>
   (status_code r = 403 \<longrightarrow> (\<exists>m. handle_response str r = Inl (PermissionError m))) \<and>
   (status_code r = 404 \<longrightarrow> (\<exists>m. handle_response str r = Inl (NotFoundError m))) \<and>
   (status_code r = 409 \<longrightarrow> (\<exists>m. handle_response str r = Inl (ConflictError m))) \<and>
   (status_code r = 429 \<longrightarrow> (\<exists>m. handle_response str r = Inl (RateLimitError m))) \<and>
   (status_code r \<notin> {200, 201, 204, 401, 403, 404, 409, 429} \<longrightarrow>
      (\<exists>m. handle_response str r = Inl (BitbucketAPIError (''API Error: '' @ m)) \<and>
         (\<forall>d e s. json r = Inr (JObj d) \<and> map_of d ''error'' = Some (JObj e) \<and>
                  map_of e ''message'' = Some (JStr s) \<longrightarrow> m = s) \<and>
         (\<forall>d e. json r = Inr (JObj d) \<and> map_of d ''error'' = Some (JObj e) \<and>
                map_of e ''message'' = None \<longrightarrow> m = ''HTTP '' @ str_int (status_code r)) \<and>
         (\<forall>d. json r = Inr (JObj d) \<and> map_of d ''error'' = None \<longrightarrow>
                m = ''HTTP '' @ str_int (status_code r)) \<and>
         (\<forall>x. json r = Inl x \<longrightarrow>
                m = ''HTTP '' @ str_int (status_code r) @ '': '' @ reason r)))"
  by (auto simp add: handle_response_def Let_def and_then_def py_get_def fmt_value_def
           split: sum.splits jvalue.splits option.splits)

theorem handle_response_classification_witness:
  "handle_response (\<lambda>v. []) (sample_response 201 [] (Inl ''no body'')) = Inr (JObj []) \<and>
   handle_response (\<lambda>v. []) (sample_response 200 ''[1]'' (Inr (JArr [JInt 1])))
     = Inr (JArr [JInt 1]) \<and>
   (\<exists>m. handle_response (\<lambda>v. []) (sample_response 409 [] (Inl ''no body''))
          = Inl (ConflictError m)) \<and>
   (\<exists>m. handle_response (\<lambda>v. []) (sample_response 429 [] (Inl ''no body''))
          = Inl (RateLimitError m)) \<and>
   handle_response (\<lambda>v. [])
     (sample_response 500 ''x'' (Inr (JObj [(''error'', JObj [(''message'', JStr ''boom'')])])))
     = Inl (BitbucketAPIError ''API Error: boom'') \<and>
   handle_response (\<lambda>v. []) (sample_response 500 ''x'' (Inl ''bad''))
     = Inl (BitbucketAPIError (''API Error: HTTP '' @ str_int 500 @ '': R''))"
  using handle_response_classification
          [where str = "\<lambda>v. []" and r = "sample_response 201 [] (Inl ''no body'')"]
        handle_response_classification
          [where str = "\<lambda>v. []" and r = "sample_response 200 ''[1]'' (Inr (JArr [JInt 1]))"]
        handle_response_classification
          [where str = "\<lambda>v. []" and r = "sample_response 409 [] (Inl ''no body'')"]
        handle_response_classification
          [where str = "\<lambda>v. []" and r = "sample_response 429 [] (Inl ''no body'')"]
        handle_response_classification
          [where str = "\<lambda>v. []" and
                 r = "sample_response 500 ''x''
                        (Inr (JObj [(''error'', JObj [(''message'', JStr ''boom'')])]))"]
        handle_response_classification
          [where str = "\<lambda>v. []" and r = "sample_response 500 ''x'' (Inl ''bad'')"]
  by (auto simp add: sample_response_def)

section \<open>Retry\<close>

lemma urlopen_not_retryable:
  "\<not> is_method_retryable rp m \<Longrightarrow> urlopen rp m (Response r # rest) = Some (Inr r, 1, rest)"
  by (simp add: is_retry_def)

lemma init_not_retryable:
  "m \<in> {''POST'', ''PUT'', ''DELETE''} \<Longrightarrow>
   \<not> is_method_retryable (self_retry_strategy (BitbucketAPI_init cfg)) m"
  by (auto simp add: is_method_retryable_def BitbucketAPI_init_def)

text \<open>
  C9. A POST, PUT or DELETE request that meets a response makes exactly one HTTP attempt,
  whatever the status of the response: the response is classified as it is and the events
  after it are left untouched.
\<close>

theorem non_idempotent_request_single_attempt:
  assumes m: "m \<in> {''POST'', ''PUT'', ''DELETE''}"
      and hs: "get_headers (BitbucketAPI_init cfg) (environ w) = Inr hs"
      and net: "network w = Response r # rest"
  shows "\<exists>w'. request str (BitbucketAPI_init cfg) m endpoint kw w
                 = Some (handle_response str r, w') \<and>
              network w' = rest \<and> length (sent w') = length (sent w) + 1"
proof -
  have "urlopen (self_retry_strategy (BitbucketAPI_init cfg)) m (network w)
          = Some (Inr r, 1, rest)"
    using urlopen_not_retryable [OF init_not_retryable [OF m]] net by simp
  then show ?thesis
    using hs by (simp add: request_def session_request_def sent_def Let_def)
qed

theorem non_idempotent_request_single_attempt_witness:
  "\<exists>w'. request (\<lambda>v. []) (BitbucketAPI_init (sample_config 3)) ''POST'' ''/x'' no_kwargs
           (sample_world [Response (sample_response 503 [] (Inl ''no body'')),
                          Response (sample_response 200 [] (Inl ''no body''))])
         = Some (handle_response (\<lambda>v. []) (sample_response 503 [] (Inl ''no body'')), w') \<and>
        network w' = [Response (sample_response 200 [] (Inl ''no body''))] \<and>
        length (sent w') = 1"
proof -
  have m: "''POST'' \<in> {''POST'', ''PUT'', ''DELETE''}" by simp
  have hs: "get_headers (BitbucketAPI_init (sample_config 3))
              (environ (sample_world [Response (sample_response 503 [] (Inl ''no body'')),
                          Response (sample_response 200 [] (Inl ''no body''))]))
            = Inr (auth_header_set ''Bearer tok'')"
    by (simp add: get_headers_def BitbucketAPI_init_def get_auth_headers_def sample_config_def
                  sample_world_def py_or_def truthy_def fmt_def)
  have net: "network (sample_world [Response (sample_response 503 [] (Inl ''no body'')),
                          Response (sample_response 200 [] (Inl ''no body''))])
             = Response (sample_response 503 [] (Inl ''no body'')) #
               [Response (sample_response 200 [] (Inl ''no body''))]"
    by (simp add: sample_world_def)
  show ?thesis
    using non_idempotent_request_single_attempt [OF m hs net, of "\<lambda>v. []" "''/x''" no_kwargs]
    by (simp add: sample_world_def sent_def)
qed

lemma urlopen_retries_then_response:
  assumes "is_method_retryable rp m"
      and "\<forall>x \<in> set rs. status_code x \<in> set (status_forcelist rp)"
      and "int (length rs) \<le> total rp"
      and "\<not> is_retry rp m (status_code r) (retry_after r)"
      and "status_code r \<notin> set RETRY_AFTER_STATUS_CODES"
  shows "urlopen rp m (map Response rs @ Response r # rest) = Some (Inr r, Suc (length rs), rest)"
  using assms
proof (induction rs arbitrary: rp)
  case Nil
  then show ?case by simp
next
  case (Cons x xs)
  have retry: "is_retry rp m (status_code x) (retry_after x)"
    using Cons.prems(1,2) by (auto simp add: is_retry_def)
  have alive: "\<not> is_exhausted (increment rp)"
    using Cons.prems(3) by (simp add: is_exhausted_def increment_def)
  have "urlopen (increment rp) m (map Response xs @ Response r # rest)
          = Some (Inr r, Suc (length xs), rest)"
    using Cons.prems by (intro Cons.IH) (auto simp add: increment_def is_method_retryable_def is_retry_def)
  then show ?case using retry alive by simp
qed

lemma urlopen_retries_exhausted:
  assumes "is_method_retryable rp m"
      and "\<forall>x \<in> set rs. status_code x \<in> set (status_forcelist rp)"
      and "int (length rs) = total rp + 1"
      and "raise_on_status rp"
      and "rs \<noteq> []"
  shows "urlopen rp m (map Response rs @ rest)
           = Some (Inl (RetryError (''too many '' @ str_int (status_code (last rs)) @
                                    '' error responses'')), length rs, rest)"
  using assms
proof (induction rs arbitrary: rp)
  case Nil
  then show ?case by simp
next
  case (Cons x xs)
  note IH = Cons.IH and prems = Cons.prems
  have retry: "is_retry rp m (status_code x) (retry_after x)"
    using prems(1,2) by (auto simp add: is_retry_def)
  show ?case
  proof (cases "xs = []")
    case True
    then have "is_exhausted (increment rp)"
      using prems(3) by (simp add: is_exhausted_def increment_def)
    then show ?thesis using retry True prems(4) by simp
  next
    case False
    then have alive: "\<not> is_exhausted (increment rp)"
      using prems(3) by (cases xs) (simp_all add: is_exhausted_def increment_def)
    have "urlopen (increment rp) m (map Response xs @ rest)
            = Some (Inl (RetryError (''too many '' @ str_int (status_code (last xs)) @
                                     '' error responses'')), length xs, rest)"
      using prems False
      by (intro IH) (auto simp add: increment_def is_method_retryable_def)
    then show ?thesis using retry alive False by simp
  qed
qed

lemma init_policy:
  "is_method_retryable (self_retry_strategy (BitbucketAPI_init cfg)) ''GET''"
  "status_forcelist (self_retry_strategy (BitbucketAPI_init cfg)) = [429, 500, 502, 503, 504]"
  "total (self_retry_strategy (BitbucketAPI_init cfg)) = int (retries (api cfg))"
  "raise_on_status (self_retry_strategy (BitbucketAPI_init cfg))"
  by (simp_all add: BitbucketAPI_init_def is_method_retryable_def)

text \<open>
  C1. With \<open>api.retries\<close> set to N, a GET answered by N responses with a status among 429,
  500, 502, 503 and 504 and then by a 200 response returns what the 200 response is
  classified as, after N + 1 attempts. Answered by N + 1 such responses, it makes N + 1
  attempts and ends in the \<open>RetryError\<close> of the HTTP library: the last response never
  reaches \<open>_handle_response\<close>, so neither \<open>RateLimitError\<close> nor \<open>BitbucketAPIError\<close> is
  raised.
\<close>

theorem get_retry_outcomes:
  assumes hs: "get_headers (BitbucketAPI_init cfg) (environ w) = Inr hs"
      and failing: "\<forall>x \<in> set rs. status_code x \<in> {429, 500, 502, 503, 504}"
  shows
  "(length rs = retries (api cfg) \<and> status_code r = 200 \<and>
    network w = map Response rs @ Response r # rest \<longrightarrow>
      (\<exists>w'. get str (BitbucketAPI_init cfg) endpoint params w
               = Some (handle_response str r, w') \<and>
             network w' = rest \<and> length (sent w') = length (sent w) + retries (api cfg) + 1)) \<and>
   (length rs = retries (api cfg) + 1 \<and> network w = map Response rs @ rest \<longrightarrow>
      (\<exists>w'. get str (BitbucketAPI_init cfg) endpoint params w
               = Some (Inl (RetryError (''too many '' @ str_int (status_code (last rs)) @
                                        '' error responses'')), w') \<and>
             network w' = rest \<and> length (sent w') = length (sent w) + retries (api cfg) + 1))"
proof (intro conjI impI)
  assume a: "length rs = retries (api cfg) \<and> status_code r = 200 \<and>
             network w = map Response rs @ Response r # rest"
  have "urlopen (self_retry_strategy (BitbucketAPI_init cfg)) ''GET''
          (map Response rs @ Response r # rest) = Some (Inr r, Suc (length rs), rest)"
    using a failing
    by (intro urlopen_retries_then_response)
       (auto simp add: init_policy is_retry_def RETRY_AFTER_STATUS_CODES_def)
  then show "\<exists>w'. get str (BitbucketAPI_init cfg) endpoint params w
               = Some (handle_response str r, w') \<and>
             network w' = rest \<and> length (sent w') = length (sent w) + retries (api cfg) + 1"
    using a hs by (simp add: get_def request_def session_request_def sent_def Let_def)
next
  assume a: "length rs = retries (api cfg) + 1 \<and> network w = map Response rs @ rest"
  have "urlopen (self_retry_strategy (BitbucketAPI_init cfg)) ''GET'' (map Response rs @ rest)
          = Some (Inl (RetryError (''too many '' @ str_int (status_code (last rs)) @
                                   '' error responses'')), length rs, rest)"
    using a failing
    by (intro urlopen_retries_exhausted) (auto simp add: init_policy)
  then show "\<exists>w'. get str (BitbucketAPI_init cfg) endpoint params w
               = Some (Inl (RetryError (''too many '' @ str_int (status_code (last rs)) @
                                        '' error responses'')), w') \<and>
             network w' = rest \<and> length (sent w') = length (sent w) + retries (api cfg) + 1"
    using a hs by (simp add: get_def request_def session_request_def sent_def Let_def)
qed

theorem get_retry_outcomes_witness:
  "(\<exists>w'. get (\<lambda>v. []) (BitbucketAPI_init (sample_config 1)) ''/user'' None
           (sample_world [Response (sample_response 503 [] (Inl ''no body'')),
                          Response (sample_response 200 ''x'' (Inr (JObj [])))])
           = Some (Inr (JObj []), w') \<and> network w' = [] \<and> length (sent w') = 2) \<and>
   (\<exists>w'. get (\<lambda>v. []) (BitbucketAPI_init (sample_config 1)) ''/user'' None
           (sample_world [Response (sample_response 500 [] (Inl ''no body'')),
                          Response (sample_response 429 [] (Inl ''no body''))])
           = Some (Inl (RetryError ''too many 429 error responses''), w') \<and>
         network w' = [] \<and> length (sent w') = 2)"
proof -
  let ?ok = "sample_response 200 ''x'' (Inr (JObj []))"
  let ?one = "[sample_response 503 [] (Inl ''no body'')]"
  let ?two = "[sample_response 500 [] (Inl ''no body''), sample_response 429 [] (Inl ''no body'')]"
  have hs: "get_headers (BitbucketAPI_init (sample_config 1)) (environ (sample_world evs))
            = Inr (auth_header_set ''Bearer tok'')" for evs
    by (simp add: get_headers_def BitbucketAPI_init_def get_auth_headers_def sample_config_def
                  sample_world_def py_or_def truthy_def fmt_def)
  have one: "\<forall>x \<in> set ?one. status_code x \<in> {429, 500, 502, 503, 504}"
    by (simp add: sample_response_def)
  have two: "\<forall>x \<in> set ?two. status_code x \<in> {429, 500, 502, 503, 504}"
    by (simp add: sample_response_def)
  have p1: "length ?one = retries (api (sample_config 1)) \<and> status_code ?ok = 200 \<and>
            network (sample_world (map Response ?one @ Response ?ok # []))
              = map Response ?one @ Response ?ok # []"
    by (simp add: sample_config_def sample_world_def sample_response_def)
  have p2: "length ?two = retries (api (sample_config 1)) + 1 \<and>
            network (sample_world (map Response ?two @ [])) = map Response ?two @ []"
    by (simp add: sample_config_def sample_world_def)
  from get_retry_outcomes [OF hs one, THEN conjunct1, rule_format, OF p1,
                           of "\<lambda>v. []" "''/user''" None]
  obtain w1 where
    "get (\<lambda>v. []) (BitbucketAPI_init (sample_config 1)) ''/user'' None
       (sample_world (map Response ?one @ Response ?ok # []))
       = Some (handle_response (\<lambda>v. []) ?ok, w1)"
    "network w1 = []"
    "length (sent w1)
       = length (sent (sample_world (map Response ?one @ Response ?ok # []))) +
         retries (api (sample_config 1)) + 1"
    by blast
  then have first: "\<exists>w'. get (\<lambda>v. []) (BitbucketAPI_init (sample_config 1)) ''/user'' None
           (sample_world [Response (sample_response 503 [] (Inl ''no body'')),
                          Response (sample_response 200 ''x'' (Inr (JObj [])))])
           = Some (Inr (JObj []), w') \<and> network w' = [] \<and> length (sent w') = 2"
    by (intro exI [of _ w1])
       (simp add: sample_config_def sample_world_def sample_response_def handle_response_def
                  sent_def)
  from get_retry_outcomes [OF hs two, THEN conjunct2, rule_format, OF p2,
                           of "\<lambda>v. []" "''/user''" None]
  obtain w2 where
    "get (\<lambda>v. []) (BitbucketAPI_init (sample_config 1)) ''/user'' None
       (sample_world (map Response ?two @ []))
       = Some (Inl (RetryError (''too many '' @ str_int (status_code (last ?two)) @
                                '' error responses'')), w2)"
    "network w2 = []"
    "length (sent w2)
       = length (sent (sample_world (map Response ?two @ []))) +
         retries (api (sample_config 1)) + 1"
    by blast
  then have second: "\<exists>w'. get (\<lambda>v. []) (BitbucketAPI_init (sample_config 1)) ''/user'' None
           (sample_world [Response (sample_response 500 [] (Inl ''no body'')),
                          Response (sample_response 429 [] (Inl ''no body''))])
           = Some (Inl (RetryError ''too many 429 error responses''), w') \<and>
         network w' = [] \<and> length (sent w') = 2"
    by (intro exI [of _ w2])
       (simp add: sample_config_def sample_world_def sample_response_def sent_def
                  str_int_def str_nat.simps)
  from first second show ?thesis by blast
qed

section \<open>Single pages\<close>

text \<open>
  C7. Whenever the transport returns an object, \<open>get_paginated\<close> returns a page, never a
  failure, whatever fields the object has: \<open>values\<close>, \<open>page\<close>, \<open>pagelen\<close> and \<open>size\<close> are
  those of the object, and the empty list, 1, 10 and 0 where the object lacks them.
\<close>

theorem get_paginated_defaults:
  assumes "map_option fst (get str self endpoint params w) = Some (Inr (JObj d))"
  shows "\<exists>page. map_option fst (get_paginated str self endpoint params w)
                   = Some (Inr (JObj page)) \<and>
           map_of page ''values''
             = Some (case map_of d ''values'' of None \<Rightarrow> JArr [] | Some v \<Rightarrow> v) \<and>
           map_of page ''page''
             = Some (case map_of d ''page'' of None \<Rightarrow> JInt 1 | Some v \<Rightarrow> v) \<and>
           map_of page ''pagelen''
             = Some (case map_of d ''pagelen'' of None \<Rightarrow> JInt 10 | Some v \<Rightarrow> v) \<and>
           map_of page ''size''
             = Some (case map_of d ''size'' of None \<Rightarrow> JInt 0 | Some v \<Rightarrow> v)"
proof -
  from assms obtain w1 where g: "get str self endpoint params w = Some (Inr (JObj d), w1)"
    by (cases "get str self endpoint params w") auto
  show ?thesis
    by (simp add: get_paginated_def g page_of_def py_get_def and_then_def split: option.splits)
qed

theorem get_paginated_defaults_witness:
  "\<exists>page. map_option fst
            (get_paginated (\<lambda>v. []) (BitbucketAPI_init (sample_config 3)) ''/prs'' None
               (sample_world
                  [Response (sample_response 200 ''x'' (Inr (JObj [(''size'', JInt 7)])))]))
            = Some (Inr (JObj page)) \<and>
          map_of page ''values'' = Some (JArr []) \<and>
          map_of page ''page'' = Some (JInt 1) \<and>
          map_of page ''pagelen'' = Some (JInt 10) \<and>
          map_of page ''size'' = Some (JInt 7)"
proof -
  have g: "map_option fst
             (get (\<lambda>v. []) (BitbucketAPI_init (sample_config 3)) ''/prs'' None
                (sample_world
                   [Response (sample_response 200 ''x'' (Inr (JObj [(''size'', JInt 7)])))]))
           = Some (Inr (JObj [(''size'', JInt 7)]))"
    by (simp add: get_def request_def get_headers_def BitbucketAPI_init_def
                  get_auth_headers_def sample_config_def sample_world_def sample_response_def
                  py_or_def truthy_def session_request_def is_retry_def
                  is_method_retryable_def RETRY_AFTER_STATUS_CODES_def handle_response_def
                  no_kwargs_def Let_def)
  show ?thesis
    using get_paginated_defaults [OF g] by simp
qed

section \<open>Inline comments\<close>

text \<open>
  C6. For a comment on a file (a non-empty name) with a starting and an ending line (both
  non-zero, which is how the code tests that they are given), the payload has
  \<open>inline.from.path\<close> the file, \<open>inline.from.line\<close> the starting line and \<open>inline.to.line\<close>
  the ending line, whatever \<open>line\<close> is. For a comment on a file with a \<open>line\<close> alone, the
  payload has \<open>inline.to.line\<close> that line and no \<open>inline.from\<close>.
\<close>

theorem add_comment_payload_inline:
  assumes "f \<noteq> []" and "a \<noteq> 0" and "b \<noteq> 0" and "l \<noteq> 0"
  shows "jpath (JObj (add_comment_payload message (Some f) line (Some a) (Some b) reply_to))
           [''inline'', ''from'', ''path''] = Some (JStr f) \<and>
         jpath (JObj (add_comment_payload message (Some f) line (Some a) (Some b) reply_to))
           [''inline'', ''from'', ''line''] = Some (JInt a) \<and>
         jpath (JObj (add_comment_payload message (Some f) line (Some a) (Some b) reply_to))
           [''inline'', ''to'', ''line''] = Some (JInt b) \<and>
         jpath (JObj (add_comment_payload message (Some f) (Some l) None None reply_to))
           [''inline'', ''to'', ''line''] = Some (JInt l) \<and>
         jpath (JObj (add_comment_payload message (Some f) (Some l) None None reply_to))
           [''inline'', ''from''] = None"
  using assms
  by (auto simp add: add_comment_payload_def Let_def truthy_def int_truthy_def opt_int_def
                     opt_str_def split: option.splits)

theorem add_comment_payload_inline_witness:
  "jpath (JObj (add_comment_payload ''note'' (Some ''a.py'') None (Some 3) (Some 7) None))
     [''inline'', ''to'', ''line''] = Some (JInt 7) \<and>
   jpath (JObj (add_comment_payload ''note'' (Some ''a.py'') None (Some 3) (Some 7) None))
     [''inline'', ''from'', ''path''] = Some (JStr ''a.py'') \<and>
   jpath (JObj (add_comment_payload ''note'' (Some ''a.py'') (Some 4) None None None))
     [''inline'', ''from''] = None"
  using add_comment_payload_inline
          [of "''a.py''" 3 7 4 "''note''" None None]
  by simp

section \<open>Validation of the credential\<close>

text \<open>
  C8, as the code has it. With a repository token present, in the configuration or in the
  environment, \<open>validate_auth\<close> reports the credential valid and leaves the network
  untouched. Without one, when an OAuth token or a complete username/app-password pair is
  present, it makes one GET to \<open>/user\<close>: a 401 response, any other response that is not a
  200, and a network failure each end in \<open>AuthenticationError\<close>, whose message has the
  status code for the second and the network error for the third. Without any credential
  it raises \<open>AuthenticationError\<close> and makes no request.
\<close>

theorem validate_auth_outcomes:
  fixes cfg :: config and w :: world
  defines "repo_token \<equiv> py_or (auth cfg ''repo_token'') (environ w ''BITBUCKET_REPO_TOKEN'')"
  shows
  "(truthy repo_token \<longrightarrow>
      (\<exists>v. validate_auth cfg w = Some (Inr v, w) \<and> jpath v [''valid''] = Some (JBool True))) \<and>
   (\<not> truthy repo_token \<longrightarrow>
      (\<forall>e. get_auth_headers cfg (environ w) = Inl e \<longrightarrow>
           (\<exists>m. validate_auth cfg w = Some (Inl (AuthenticationError m), w))) \<and>
      (\<forall>hs ev rest. get_auth_headers cfg (environ w) = Inr hs \<and> network w = ev # rest \<longrightarrow>
           (\<exists>res. validate_auth cfg w =
                     Some (res, w\<lparr>network := rest,
                                  trace := trace w @
                                    [Sent \<lparr>req_method = ''GET'',
                                      req_url = base_url (api cfg) @ ''/user'',
                                      req_headers = hs, req_timeout = timeout (api cfg),
                                      req_params = None, req_data = None,
                                      req_json = None\<rparr>]\<rparr>) \<and>
              (\<forall>r. ev = Response r \<and> status_code r = 401 \<longrightarrow>
                   (\<exists>m. res = Inl (AuthenticationError m))) \<and>
              (\<forall>r. ev = Response r \<and> status_code r \<noteq> 401 \<and> status_code r \<noteq> 200 \<longrightarrow>
                   res = Inl (AuthenticationError
                               (''Authentication validation failed: Authentication failed: '' @
                                str_int (status_code r) @ '' '' @ reason r))) \<and>
              (\<forall>e. ev = ConnectFailure e \<or> ev = ReadFailure e \<longrightarrow>
                   res = Inl (AuthenticationError
                               (''Network error during authentication: '' @ e))))))"
  unfolding repo_token_def
  by (auto simp add: validate_auth_def validate_auth_try_def validate_auth_except_def
        requests_get_def get_auth_headers_def Let_def
      split: sum.splits net_event.splits)

theorem validate_auth_outcomes_witness:
  "(\<exists>v. validate_auth (sample_config 3) (sample_world [])
          = Some (Inr v, sample_world []) \<and> jpath v [''valid''] = Some (JBool True)) \<and>
   map_option fst
     (validate_auth (DEFAULT_CONFIG\<lparr>auth := [''oauth_token'' \<mapsto> ''o'']\<rparr>)
        (sample_world [Response (sample_response 503 [] (Inl ''no body''))]))
     = Some (Inl (AuthenticationError
                   (''Authentication validation failed: Authentication failed: '' @
                    str_int 503 @ '' R''))) \<and>
   map_option fst
     (validate_auth (DEFAULT_CONFIG\<lparr>auth := [''oauth_token'' \<mapsto> ''o'']\<rparr>)
        (sample_world [ConnectFailure ''unreachable'']))
     = Some (Inl (AuthenticationError ''Network error during authentication: unreachable''))"
proof -
  have hs: "get_auth_headers (DEFAULT_CONFIG\<lparr>auth := [''oauth_token'' \<mapsto> ''o'']\<rparr>) Map.empty
            = Inr (auth_header_set ''Bearer o'')"
    by (simp add: get_auth_headers_def py_or_def truthy_def fmt_def)
  show ?thesis
    using hs
      validate_auth_outcomes [of "sample_config 3" "sample_world []"]
      validate_auth_outcomes
        [of "DEFAULT_CONFIG\<lparr>auth := [''oauth_token'' \<mapsto> ''o'']\<rparr>"
            "sample_world [Response (sample_response 503 [] (Inl ''no body''))]"]
      validate_auth_outcomes
        [of "DEFAULT_CONFIG\<lparr>auth := [''oauth_token'' \<mapsto> ''o'']\<rparr>"
            "sample_world [ConnectFailure ''unreachable'']"]
    by (auto simp add: sample_config_def sample_world_def sample_response_def py_or_def
                       truthy_def)
qed

text \<open>
  C8, as stated, fails: with no credential at all there is no repository token, and yet
  \<open>validate_auth\<close> makes no GET; it raises \<open>AuthenticationError\<close> and leaves the response
  that was waiting unread.
\<close>

theorem validate_auth_without_credential_counterexample:
  "\<not> truthy (py_or (auth DEFAULT_CONFIG ''repo_token'')
               (environ (sample_world [Response (sample_response 200 [] (Inl ''no body''))])
                  ''BITBUCKET_REPO_TOKEN'')) \<and>
   map_option (sent \<circ> snd)
     (validate_auth DEFAULT_CONFIG
        (sample_world [Response (sample_response 200 [] (Inl ''no body''))])) = Some [] \<and>
   map_option (network \<circ> snd)
     (validate_auth DEFAULT_CONFIG
        (sample_world [Response (sample_response 200 [] (Inl ''no body''))]))
     = Some [Response (sample_response 200 [] (Inl ''no body''))] \<and>
   map_option (isl \<circ> fst)
     (validate_auth DEFAULT_CONFIG
        (sample_world [Response (sample_response 200 [] (Inl ''no body''))])) = Some True"
  by (simp add: validate_auth_def validate_auth_try_def get_auth_headers_def
                DEFAULT_CONFIG_def sample_world_def sent_def py_or_def truthy_def Let_def)

section \<open>Walking the pages\<close>

lemma get_page:
  assumes hs: "get_headers (BitbucketAPI_init cfg) (environ w) = Inr hs"
      and net: "network w = Response r # rest"
      and page: "page_response r d"
  shows "\<exists>q. get str (BitbucketAPI_init cfg) ep ps w
               = Some (Inr (JObj d), w\<lparr>network := rest, trace := trace w @ [Sent q]\<rparr>)"
proof -
  have "\<not> is_retry (self_retry_strategy (BitbucketAPI_init cfg)) ''GET'' (status_code r)
            (retry_after r)"
    using page
    by (simp add: page_response_def is_retry_def BitbucketAPI_init_def
                  RETRY_AFTER_STATUS_CODES_def)
  then have "urlopen (self_retry_strategy (BitbucketAPI_init cfg)) ''GET'' (network w)
               = Some (Inr r, 1, rest)"
    using net by simp
  moreover have "handle_response str r = Inr (JObj d)"
    using page by (auto simp add: page_response_def handle_response_def split: if_splits)
  ultimately show ?thesis
    using hs by (simp add: get_def request_def session_request_def Let_def) (rule exI, rule refl)
qed

lemma extend_values_page:
  "has_values_list d \<Longrightarrow> extend_values results (JObj d) = Inr (results @ page_values d)"
  by (auto simp add: extend_values_def has_values_list_def page_values_def py_contains_def
        py_getitem_def py_iter_def and_then_def map_of_eq_None_iff [symmetric]
      split: option.splits jvalue.splits)

lemma py_get_next: "py_get (JObj d) ''next'' JNull = Inr (next_of d)"
  by (simp add: py_get_def next_of_def split: option.splits)

lemma get_all_pages_loop_chain:
  assumes "page_chain ds"
      and "list_all2 page_response rs ds"
      and "\<forall>d \<in> set ds. has_values_list d"
      and "get_headers (BitbucketAPI_init cfg) (environ w) = Inr hs"
      and "network w = map Response rs @ rest"
      and "jtruthy url"
      and "\<not> is_first \<longrightarrow> (\<exists>u. url = JStr u)"
  shows "\<exists>q qs. get_all_pages_loop str (BitbucketAPI_init cfg) params url is_first results w
           = Some (Inr (results @ concat (map page_values ds)),
                   w\<lparr>network := rest,
                     trace := trace w @ Sent q # concat (map (\<lambda>x. [Slept, Sent x]) qs)\<rparr>) \<and>
          Suc (length qs) = length ds"
  using assms
proof (induction ds arbitrary: rs w url is_first results rule: page_chain.induct)
  case 1
  then show ?case by simp
next
  case (2 d)
  from "2.prems"(2) obtain r where rs: "rs = [r]" and page: "page_response r d"
    by (auto simp add: list_all2_Cons2)
  from "2.prems"(5) rs have net: "network w = Response r # rest" by simp
  have g: "\<And>ep ps. \<exists>q. get str (BitbucketAPI_init cfg) ep ps w
               = Some (Inr (JObj d), w\<lparr>network := rest, trace := trace w @ [Sent q]\<rparr>)"
    using get_page [OF "2.prems"(4) net page] by blast
  have ev: "extend_values results (JObj d) = Inr (results @ page_values d)"
    using "2.prems"(3) by (simp add: extend_values_page)
  have stop: "\<not> jtruthy (next_of d)" using "2.prems"(1) by simp
  show ?case
  proof (cases is_first)
    case True
    from g [of "fmt_value str url" params] obtain q where
      "get str (BitbucketAPI_init cfg) (fmt_value str url) params w
         = Some (Inr (JObj d), w\<lparr>network := rest, trace := trace w @ [Sent q]\<rparr>)" by blast
    then have "get_all_pages_loop str (BitbucketAPI_init cfg) params url is_first results w
           = Some (Inr (results @ page_values d),
                   w\<lparr>network := rest, trace := trace w @ [Sent q]\<rparr>)"
      using True "2.prems"(6) ev stop
      by (subst get_all_pages_loop.simps)
         (simp add: py_get_next get_all_pages_loop.simps [of _ _ _ "next_of d"])
    then show ?thesis by (intro exI [of _ q] exI [of _ "[]"]) simp
  next
    case False
    with "2.prems"(7) obtain u where u: "url = JStr u" by blast
    from g [of "str_replace u (self_base_url (BitbucketAPI_init cfg)) []" None] obtain q where
      "get str (BitbucketAPI_init cfg) (str_replace u (self_base_url (BitbucketAPI_init cfg)) [])
         None w
         = Some (Inr (JObj d), w\<lparr>network := rest, trace := trace w @ [Sent q]\<rparr>)" by blast
    then have "get_all_pages_loop str (BitbucketAPI_init cfg) params url is_first results w
           = Some (Inr (results @ page_values d),
                   w\<lparr>network := rest, trace := trace w @ [Sent q]\<rparr>)"
      using False u "2.prems"(6) ev stop
      by (subst get_all_pages_loop.simps)
         (simp add: py_get_next get_all_pages_loop.simps [of _ _ _ "next_of d"])
    then show ?thesis by (intro exI [of _ q] exI [of _ "[]"]) simp
  qed
next
  case (3 d d' ds)
  from "3.prems"(2) obtain r rs' where rs: "rs = r # rs'" and page: "page_response r d"
      and rest_pages: "list_all2 page_response rs' (d' # ds)"
    by (auto simp add: list_all2_Cons2)
  from "3.prems"(5) rs have net: "network w = Response r # (map Response rs' @ rest)" by simp
  have g: "\<And>ep ps. \<exists>q. get str (BitbucketAPI_init cfg) ep ps w
               = Some (Inr (JObj d),
                       w\<lparr>network := map Response rs' @ rest, trace := trace w @ [Sent q]\<rparr>)"
    using get_page [OF "3.prems"(4) net page] by blast
  have ev: "extend_values results (JObj d) = Inr (results @ page_values d)"
    using "3.prems"(3) by (simp add: extend_values_page)
  from "3.prems"(1) obtain v where nx: "next_of d = JStr v" and v: "v \<noteq> []"
    by (auto split: jvalue.splits)
  have chain: "page_chain (d' # ds)" using "3.prems"(1) by simp
  have vals: "\<forall>x \<in> set (d' # ds). has_values_list x" using "3.prems"(3) by simp
  have step: "\<exists>q qs. get_all_pages_loop str (BitbucketAPI_init cfg) params (JStr v) False
                  (results @ page_values d) w1
           = Some (Inr ((results @ page_values d) @ concat (map page_values (d' # ds))),
                   w1\<lparr>network := rest,
                      trace := trace w1 @ Sent q # concat (map (\<lambda>x. [Slept, Sent x]) qs)\<rparr>) \<and>
          Suc (length qs) = length (d' # ds)"
    if "environ w1 = environ w" and "network w1 = map Response rs' @ rest" for w1
    using that "3.prems"(4) v
    by (intro "3.IH" [OF chain rest_pages vals]) simp_all
  have first: "\<exists>q q' qs. get_all_pages_loop str (BitbucketAPI_init cfg) params url is_first results w
           = Some (Inr (results @ concat (map page_values (d # d' # ds))),
                   w\<lparr>network := rest,
                     trace := trace w @ Sent q # Slept # Sent q' #
                              concat (map (\<lambda>x. [Slept, Sent x]) qs)\<rparr>) \<and>
          Suc (length qs) = length (d' # ds)"
    if "get str (BitbucketAPI_init cfg) ep ps w
         = Some (Inr (JObj d),
                 w\<lparr>network := map Response rs' @ rest, trace := trace w @ [Sent q]\<rparr>)"
       and "get_all_pages_loop str (BitbucketAPI_init cfg) params url is_first results w
         = (case get str (BitbucketAPI_init cfg) ep ps w of
              None \<Rightarrow> None
            | Some (Inl e, w1) \<Rightarrow> Some (Inl e, w1)
            | Some (Inr response, w1) \<Rightarrow>
                (case extend_values results response of
                   Inl e \<Rightarrow> Some (Inl e, w1)
                 | Inr results' \<Rightarrow>
                     (case py_get response ''next'' JNull of
                        Inl e \<Rightarrow> Some (Inl e, w1)
                      | Inr url' \<Rightarrow>
                          get_all_pages_loop str (BitbucketAPI_init cfg) params url' False results'
                            (if jtruthy url' then w1\<lparr>trace := trace w1 @ [Slept]\<rparr> else w1))))"
    for ep ps q
  proof -
    from step [of "w\<lparr>network := map Response rs' @ rest, trace := trace w @ [Sent q, Slept]\<rparr>"]
    obtain q' qs where
      "get_all_pages_loop str (BitbucketAPI_init cfg) params (JStr v) False
          (results @ page_values d)
          (w\<lparr>network := map Response rs' @ rest, trace := trace w @ [Sent q, Slept]\<rparr>)
        = Some (Inr ((results @ page_values d) @ concat (map page_values (d' # ds))),
                w\<lparr>network := rest,
                   trace := trace w @ [Sent q, Slept] @ Sent q' #
                            concat (map (\<lambda>x. [Slept, Sent x]) qs)\<rparr>)"
      and len: "Suc (length qs) = length (d' # ds)"
      by auto
    then show ?thesis
      using that ev nx v
      by (intro exI [of _ q] exI [of _ q'] exI [of _ qs]) (simp add: py_get_next)
  qed
  show ?case
  proof (cases is_first)
    case True
    from g [of "fmt_value str url" params] obtain q where
      gq: "get str (BitbucketAPI_init cfg) (fmt_value str url) params w
         = Some (Inr (JObj d),
                 w\<lparr>network := map Response rs' @ rest, trace := trace w @ [Sent q]\<rparr>)" by blast
    have "\<exists>q q' qs. get_all_pages_loop str (BitbucketAPI_init cfg) params url is_first results w
           = Some (Inr (results @ concat (map page_values (d # d' # ds))),
                   w\<lparr>network := rest,
                     trace := trace w @ Sent q # Slept # Sent q' #
                              concat (map (\<lambda>x. [Slept, Sent x]) qs)\<rparr>) \<and>
          Suc (length qs) = length (d' # ds)"
      using True "3.prems"(6)
      by (intro first [OF gq]) (subst get_all_pages_loop.simps, simp)
    then obtain q q' qs where
      "get_all_pages_loop str (BitbucketAPI_init cfg) params url is_first results w
           = Some (Inr (results @ concat (map page_values (d # d' # ds))),
                   w\<lparr>network := rest,
                     trace := trace w @ Sent q # Slept # Sent q' #
                              concat (map (\<lambda>x. [Slept, Sent x]) qs)\<rparr>)"
      and "Suc (length qs) = length (d' # ds)" by blast
    then show ?thesis by (intro exI [of _ q] exI [of _ "q' # qs"]) simp
  next
    case False
    with "3.prems"(7) obtain u where u: "url = JStr u" by blast
    from g [of "str_replace u (self_base_url (BitbucketAPI_init cfg)) []" None] obtain q where
      gq: "get str (BitbucketAPI_init cfg)
             (str_replace u (self_base_url (BitbucketAPI_init cfg)) []) None w
         = Some (Inr (JObj d),
                 w\<lparr>network := map Response rs' @ rest, trace := trace w @ [Sent q]\<rparr>)" by blast
    have "\<exists>q q' qs. get_all_pages_loop str (BitbucketAPI_init cfg) params url is_first results w
           = Some (Inr (results @ concat (map page_values (d # d' # ds))),
                   w\<lparr>network := rest,
                     trace := trace w @ Sent q # Slept # Sent q' #
                              concat (map (\<lambda>x. [Slept, Sent x]) qs)\<rparr>) \<and>
          Suc (length qs) = length (d' # ds)"
      using False u "3.prems"(6)
      by (intro first [OF gq]) (subst get_all_pages_loop.simps, simp)
    then obtain q q' qs where
      "get_all_pages_loop str (BitbucketAPI_init cfg) params url is_first results w
           = Some (Inr (results @ concat (map page_values (d # d' # ds))),
                   w\<lparr>network := rest,
                     trace := trace w @ Sent q # Slept # Sent q' #
                              concat (map (\<lambda>x. [Slept, Sent x]) qs)\<rparr>)"
      and "Suc (length qs) = length (d' # ds)" by blast
    then show ?thesis by (intro exI [of _ q] exI [of _ "q' # qs"]) simp
  qed
qed

lemma sent_of_paced_trace:
  "concat (map (\<lambda>ev. case ev of Sent q \<Rightarrow> [q] | Slept \<Rightarrow> [])
             (concat (map (\<lambda>x. [Slept, Sent x]) qs))) = qs"
  by (induction qs) simp_all

lemma slept_of_paced_trace:
  "length (filter (\<lambda>ev. ev = Slept) (concat (map (\<lambda>x. [Slept, Sent x]) qs))) = length qs"
  by (induction qs) simp_all

text \<open>
  C5. When the server answers with a chain of pages (each but the last with a \<open>next\<close>
  cursor, the last without), \<open>get_all_pages\<close> returns the items of the pages, concatenated
  in the order of the pages. It makes one request per page, so one request when the first
  page has no cursor, and it pauses once before each request after the first and never
  after the last: the trace is a request followed by a pause and a request for every
  further page.
\<close>

theorem get_all_pages_concatenates:
  assumes hs: "get_headers (BitbucketAPI_init cfg) (environ w) = Inr hs"
      and endpoint: "endpoint \<noteq> []"
      and net: "network w = map Response rs @ rest"
      and pages: "list_all2 page_response rs ds"
      and chain: "page_chain ds"
      and vals: "\<forall>d \<in> set ds. has_values_list d"
  shows "\<exists>w' q qs.
           get_all_pages str (BitbucketAPI_init cfg) endpoint params w
             = Some (Inr (concat (map page_values ds)), w') \<and>
           network w' = rest \<and>
           trace w' = trace w @ Sent q # concat (map (\<lambda>x. [Slept, Sent x]) qs) \<and>
           Suc (length qs) = length ds \<and>
           length (sent w') = length (sent w) + length ds \<and>
           slept w' + 1 = slept w + length ds"
proof -
  have "jtruthy (JStr endpoint)" using endpoint by simp
  from get_all_pages_loop_chain
         [OF chain pages vals hs net this, of True str params "[]"]
  obtain q qs where
    run: "get_all_pages_loop str (BitbucketAPI_init cfg) params (JStr endpoint) True [] w
            = Some (Inr (concat (map page_values ds)),
                    w\<lparr>network := rest,
                      trace := trace w @ Sent q # concat (map (\<lambda>x. [Slept, Sent x]) qs)\<rparr>)"
    and len: "Suc (length qs) = length ds"
    by auto
  show ?thesis
    using run len
    by (intro exI [of _ "w\<lparr>network := rest,
                      trace := trace w @ Sent q # concat (map (\<lambda>x. [Slept, Sent x]) qs)\<rparr>"]
              exI [of _ q] exI [of _ qs])
       (simp add: get_all_pages_def sent_def slept_def sent_of_paced_trace
                  slept_of_paced_trace)
qed

theorem get_all_pages_concatenates_witness:
  "\<exists>w' q qs.
     get_all_pages (\<lambda>v. []) (BitbucketAPI_init (sample_config 3)) ''/prs'' None
       (sample_world
          [Response (sample_response 200 ''x''
                       (Inr (JObj (sample_page [JInt 1, JInt 2] ''https://h/prs?page=2'')))),
           Response (sample_response 200 ''x''
                       (Inr (JObj (sample_page [JInt 3, JInt 4] ''https://h/prs?page=3'')))),
           Response (sample_response 200 ''x''
                       (Inr (JObj (sample_page [JInt 5] []))))])
       = Some (Inr [JInt 1, JInt 2, JInt 3, JInt 4, JInt 5], w') \<and>
     network w' = [] \<and>
     trace w' = Sent q # concat (map (\<lambda>x. [Slept, Sent x]) qs) \<and>
     length qs = 2 \<and> length (sent w') = 3 \<and> slept w' = 2"
proof -
  let ?ds = "[sample_page [JInt 1, JInt 2] ''https://h/prs?page=2'',
              sample_page [JInt 3, JInt 4] ''https://h/prs?page=3'',
              sample_page [JInt 5] []]"
  let ?rs = "map (\<lambda>d. sample_response 200 ''x'' (Inr (JObj d))) ?ds"
  let ?w = "sample_world (map Response ?rs)"
  have hs: "get_headers (BitbucketAPI_init (sample_config 3)) (environ ?w)
            = Inr (auth_header_set ''Bearer tok'')"
    by (simp add: get_headers_def BitbucketAPI_init_def get_auth_headers_def sample_config_def
                  sample_world_def py_or_def truthy_def fmt_def)
  have endpoint: "''/prs'' \<noteq> []" by simp
  have net: "network ?w = map Response ?rs @ []" by (simp add: sample_world_def)
  have pages: "list_all2 page_response ?rs ?ds"
    by (simp add: page_response_def sample_response_def)
  have chain: "page_chain ?ds" by (simp add: next_of_def sample_page_def)
  have vals: "\<forall>d \<in> set ?ds. has_values_list d"
    by (simp add: has_values_list_def sample_page_def)
  from get_all_pages_concatenates [OF hs endpoint net pages chain vals, of "\<lambda>v. []" None]
  obtain w' q qs where
    run: "get_all_pages (\<lambda>v. []) (BitbucketAPI_init (sample_config 3)) ''/prs'' None ?w
            = Some (Inr (concat (map page_values ?ds)), w')"
    and rest: "network w' = []"
    and tr: "trace w' = trace ?w @ Sent q # concat (map (\<lambda>x. [Slept, Sent x]) qs)"
    and len: "Suc (length qs) = length ?ds"
    and cnt: "length (sent w') = length (sent ?w) + length ?ds"
    and pauses: "slept w' + 1 = slept ?w + length ?ds"
    by blast
  show ?thesis
    using run rest tr len cnt pauses
    by (intro exI [of _ w'] exI [of _ q] exI [of _ qs])
       (simp add: page_values_def sample_page_def sample_world_def sent_def slept_def)
qed

end
